theory Spec2Isabelle
  imports Main "HOL-Library.Word"
begin

section \<open>The products API route: \<open>app/routes/($locale).api.products.tsx\<close>\<close>

text \<open>
  The route's \<open>loader\<close> reads four query-string parameters, issues one Storefront API
  query and answers with the flattened product list and the parameters it used. The
  embedding follows the loader line by line. The platform functions it calls
  (\<open>URLSearchParams\<close>, \<open>parseInt\<close>) are modelled from their standards (WHATWG URL,
  ECMA-262), the Storefront client is a parameter.
\<close>

subsection \<open>JavaScript strings\<close>

text \<open>
  A JavaScript string is a sequence of 16-bit code units. \<open>js\<close> writes an ASCII literal
  of the source as such a sequence.
\<close>

type_synonym js_string = "16 word list"

definition js :: "string \<Rightarrow> js_string" where
  "js s = map of_char s"

subsection \<open>JavaScript numbers produced by \<open>parseInt\<close>\<close>

text \<open>
  \<open>parseInt\<close> yields \<open>NaN\<close>, a signed zero, or the Number value for a non-zero integer:
  the nearest IEEE 754 double (ties to even), which is an integer again, or an infinity
  when the magnitude rounds up to \<open>2 ^ 1024\<close>. \<open>Num n\<close> is the finite Number whose value
  is the integer \<open>n\<close> (\<open>Num 0\<close> is \<open>+0\<close>), \<open>NegZero\<close> is \<open>-0\<close>.
\<close>

datatype js_number = NaN | Infinity | NegInfinity | NegZero | Num int

text \<open>The number of binary digits of a natural number.\<close>

fun bit_length :: "nat \<Rightarrow> nat" where
  "bit_length n = (if n = 0 then 0 else Suc (bit_length (n div 2)))"

declare bit_length.simps [simp del]

text \<open>
  Rounding a positive integer to 53 significant bits, ties to even: the magnitude of the
  nearest double, as long as that is finite.
\<close>

definition round_to_double :: "nat \<Rightarrow> nat" where
  "round_to_double a =
     (let l = bit_length a in
      if l \<le> 53 then a
      else
        let sh = l - 53;
            q = a div 2 ^ sh;
            r = a mod 2 ^ sh;
            half = 2 ^ (sh - 1);
            q' = (if half < r \<or> (r = half \<and> odd q) then q + 1 else q)
        in q' * 2 ^ sh)"

text \<open>
  ECMA-262 \<open>parseInt\<close>, steps 11 and 12 (the result for a sign and a mathematical
  integer \<open>mathInt\<close>): a zero keeps the sign, anything else is the Number value for
  \<open>sign \<times> mathInt\<close>.
\<close>

definition number_for :: "bool \<Rightarrow> nat \<Rightarrow> js_number" where
  "number_for negative mathInt =
     (if mathInt = 0 then (if negative then NegZero else Num 0)
      else
        let m = round_to_double mathInt in
        if 2 ^ 1024 \<le> m then (if negative then NegInfinity else Infinity)
        else Num (if negative then - int m else int m))"

subsection \<open>\<open>parseInt(string)\<close> with no radix argument\<close>

text \<open>
  \<open>StrWhiteSpaceChar\<close>: the code points of \<open>WhiteSpace\<close> (TAB, VT, FF, ZWNBSP and the
  Unicode space separators) and of \<open>LineTerminator\<close> (LF, CR, LS, PS).
\<close>

definition is_white_space :: "16 word \<Rightarrow> bool" where
  "is_white_space c \<longleftrightarrow>
     c = 0x0009 \<or> c = 0x000A \<or> c = 0x000B \<or> c = 0x000C \<or> c = 0x000D \<or>
     c = 0x0020 \<or> c = 0x00A0 \<or> c = 0x1680 \<or> (0x2000 \<le> c \<and> c \<le> 0x200A) \<or>
     c = 0x2028 \<or> c = 0x2029 \<or> c = 0x202F \<or> c = 0x205F \<or> c = 0x3000 \<or>
     c = 0xFEFF"

definition is_decimal_digit :: "16 word \<Rightarrow> bool" where
  "is_decimal_digit c \<longleftrightarrow> 0x30 \<le> c \<and> c \<le> 0x39"

definition is_hex_digit :: "16 word \<Rightarrow> bool" where
  "is_hex_digit c \<longleftrightarrow>
     (0x30 \<le> c \<and> c \<le> 0x39) \<or> (0x41 \<le> c \<and> c \<le> 0x46) \<or> (0x61 \<le> c \<and> c \<le> 0x66)"

text \<open>The value of a digit: \<open>0\<close>--\<open>9\<close>, then \<open>A\<close>--\<open>F\<close> and \<open>a\<close>--\<open>f\<close> as 10--15.\<close>

definition digit_value :: "16 word \<Rightarrow> nat" where
  "digit_value c =
     (if c \<le> 0x39 then unat c - 0x30
      else if c \<le> 0x46 then unat c - 0x41 + 10
      else unat c - 0x61 + 10)"

text \<open>The integer a digit string denotes in radix \<open>R\<close>, most significant digit first.\<close>

definition radix_value :: "nat \<Rightarrow> js_string \<Rightarrow> nat" where
  "radix_value R Z = foldl (\<lambda>acc c. acc * R + digit_value c) 0 Z"

text \<open>
  ECMA-262 \<open>parseInt(string, radix)\<close> with \<open>radix\<close> undefined, on a string argument:
  trim leading white space, take the sign, switch to radix 16 after a \<open>0x\<close> or \<open>0X\<close>
  prefix, read the longest digit prefix \<open>Z\<close>; no digit gives \<open>NaN\<close>. It never throws.
  The mathematical value of \<open>Z\<close> is taken exactly.
\<close>

definition parseInt :: "js_string \<Rightarrow> js_number" where
  "parseInt inputString =
     (let S = dropWhile is_white_space inputString;
          negative = (case S of [] \<Rightarrow> False | c # _ \<Rightarrow> c = 0x2D);
          S1 = (case S of [] \<Rightarrow> S | c # rest \<Rightarrow> if c = 0x2B \<or> c = 0x2D then rest else S);
          hex = (case S1 of a # b # _ \<Rightarrow> a = 0x30 \<and> (b = 0x78 \<or> b = 0x58) | _ \<Rightarrow> False);
          R = (if hex then 16 else 10);
          S2 = (if hex then drop 2 S1 else S1);
          Z = takeWhile (if hex then is_hex_digit else is_decimal_digit) S2
      in if Z = [] then NaN else number_for negative (radix_value R Z))"

subsection \<open>The query string: \<open>new URL(request.url).search\<close> and \<open>URLSearchParams\<close>\<close>

text \<open>
  \<open>request.url\<close> is a serialised absolute URL, an ASCII string, given here as its
  bytes. The \<open>search\<close> getter of its parsed form is the part from the first \<open>?\<close> up
  to the fragment, and the empty string when that query is missing or empty.
\<close>

record request =
  url :: string

definition URL_search :: "string \<Rightarrow> string" where
  "URL_search href =
     (let q = dropWhile (\<lambda>c. c \<noteq> CHR ''?'') (takeWhile (\<lambda>c. c \<noteq> CHR ''#'') href)
      in if length q \<le> 1 then [] else q)"

text \<open>Strict splitting of a sequence at every occurrence of a delimiter.\<close>

fun split_on :: "'a \<Rightarrow> 'a list \<Rightarrow> 'a list list" where
  "split_on d [] = [[]]"
| "split_on d (x # xs) =
     (if x = d then [] # split_on d xs
      else (case split_on d xs of [] \<Rightarrow> [[x]] | y # ys \<Rightarrow> (x # y) # ys))"

definition is_ascii_hex :: "char \<Rightarrow> bool" where
  "is_ascii_hex c \<longleftrightarrow>
     (let n = (of_char c :: nat) in
      (0x30 \<le> n \<and> n \<le> 0x39) \<or> (0x41 \<le> n \<and> n \<le> 0x46) \<or> (0x61 \<le> n \<and> n \<le> 0x66))"

definition hex_value :: "char \<Rightarrow> nat" where
  "hex_value c =
     (let n = (of_char c :: nat) in
      if n \<le> 0x39 then n - 0x30 else if n \<le> 0x46 then n - 0x37 else n - 0x57)"

text \<open>
  WHATWG URL, percent-decode: a \<open>%\<close> followed by two hexadecimal digits is the byte
  they denote, every other byte stays.
\<close>

fun percent_decode :: "string \<Rightarrow> string" where
  "percent_decode (a # b # c # rest) =
     (if a = CHR ''%'' \<and> is_ascii_hex b \<and> is_ascii_hex c
      then char_of (16 * hex_value b + hex_value c) # percent_decode rest
      else a # percent_decode (b # c # rest))"
| "percent_decode bs = bs"

text \<open>
  WHATWG Encoding, the UTF-8 decoder, on the bytes as numbers: a malformed sequence
  gives U+FFFD and the offending byte is read again from the initial state.
  \<open>b mod 2 ^ k\<close> is the mask \<open>b & (2 ^ k - 1)\<close>, \<open>cp * 64 + b mod 64\<close> is
  \<open>(cp << 6) | (b & 0x3F)\<close>.
\<close>

record utf8_decoder =
  code_point :: nat
  bytes_seen :: nat
  bytes_needed :: nat
  lower_boundary :: nat
  upper_boundary :: nat

definition utf8_initial :: utf8_decoder where
  "utf8_initial =
     \<lparr>code_point = 0, bytes_seen = 0, bytes_needed = 0,
      lower_boundary = 0x80, upper_boundary = 0xBF\<rparr>"

function utf8_decode_from :: "utf8_decoder \<Rightarrow> nat list \<Rightarrow> nat list" where
  "utf8_decode_from d [] = (if bytes_needed d \<noteq> 0 then [0xFFFD] else [])"
| "utf8_decode_from d (b # bs) =
     (if bytes_needed d = 0 then
        (if b \<le> 0x7F then b # utf8_decode_from d bs
         else if 0xC2 \<le> b \<and> b \<le> 0xDF then
           utf8_decode_from (d\<lparr>bytes_needed := 1, code_point := b mod 32\<rparr>) bs
         else if 0xE0 \<le> b \<and> b \<le> 0xEF then
           utf8_decode_from
             (d\<lparr>lower_boundary := (if b = 0xE0 then 0xA0 else lower_boundary d),
                upper_boundary := (if b = 0xED then 0x9F else upper_boundary d),
                bytes_needed := 2, code_point := b mod 16\<rparr>) bs
         else if 0xF0 \<le> b \<and> b \<le> 0xF4 then
           utf8_decode_from
             (d\<lparr>lower_boundary := (if b = 0xF0 then 0x90 else lower_boundary d),
                upper_boundary := (if b = 0xF4 then 0x8F else upper_boundary d),
                bytes_needed := 3, code_point := b mod 8\<rparr>) bs
         else 0xFFFD # utf8_decode_from d bs)
      else if b < lower_boundary d \<or> upper_boundary d < b then
        0xFFFD # utf8_decode_from utf8_initial (b # bs)
      else
        (let cp = code_point d * 64 + b mod 64;
             seen = bytes_seen d + 1
         in if seen \<noteq> bytes_needed d then
              utf8_decode_from
                (d\<lparr>lower_boundary := 0x80, upper_boundary := 0xBF,
                   code_point := cp, bytes_seen := seen\<rparr>) bs
            else cp # utf8_decode_from utf8_initial bs))"
  by pat_completeness auto

termination
  by (relation "measure (\<lambda>(d, bs). 2 * length bs + (if bytes_needed d = 0 then 0 else 1))")
     (auto simp: utf8_initial_def)

text \<open>A code point as UTF-16 code units: itself, or a surrogate pair above U+FFFF.\<close>

definition utf16_units :: "nat \<Rightarrow> js_string" where
  "utf16_units cp =
     (if cp < 0x10000 then [of_nat cp]
      else [of_nat (0xD800 + (cp - 0x10000) div 0x400),
            of_nat (0xDC00 + (cp - 0x10000) mod 0x400)])"

definition utf8_decode_without_BOM :: "string \<Rightarrow> js_string" where
  "utf8_decode_without_BOM bytes =
     concat (map utf16_units (utf8_decode_from utf8_initial (map of_char bytes)))"

text \<open>
  WHATWG URL, the \<open>application/x-www-form-urlencoded\<close> parser: split at \<open>&\<close>, skip
  empty pieces, split each piece at its first \<open>=\<close>, turn \<open>+\<close> into a space,
  percent-decode and UTF-8 decode name and value.
\<close>

definition urlencoded_pair :: "string \<Rightarrow> js_string \<times> js_string" where
  "urlencoded_pair bytes =
     (let name = takeWhile (\<lambda>c. c \<noteq> CHR ''='') bytes;
          value = (if CHR ''='' \<in> set bytes
                   then drop 1 (dropWhile (\<lambda>c. c \<noteq> CHR ''='') bytes) else []);
          plus = (\<lambda>c. if c = CHR ''+'' then CHR '' '' else c)
      in (utf8_decode_without_BOM (percent_decode (map plus name)),
          utf8_decode_without_BOM (percent_decode (map plus value))))"

definition urlencoded_parse :: "string \<Rightarrow> (js_string \<times> js_string) list" where
  "urlencoded_parse input =
     map urlencoded_pair (filter (\<lambda>bytes. bytes \<noteq> []) (split_on CHR ''&'' input))"

text \<open>
  \<open>new URLSearchParams(init)\<close> for a string: a leading \<open>?\<close> is dropped, the rest is
  parsed into the object's list of name-value pairs, in order, duplicates kept.
\<close>

type_synonym url_search_params = "(js_string \<times> js_string) list"

definition URLSearchParams :: "string \<Rightarrow> url_search_params" where
  "URLSearchParams init =
     urlencoded_parse (case init of [] \<Rightarrow> [] | c # rest \<Rightarrow> if c = CHR ''?'' then rest else init)"

text \<open>
  \<open>searchParams.get(name)\<close>: the value of the first pair with that name, \<open>null\<close>
  (\<open>None\<close>) when there is none.
\<close>

definition get :: "url_search_params \<Rightarrow> js_string \<Rightarrow> js_string option" where
  "get list name = map_of list name"

subsection \<open>The Storefront client and the response\<close>

text \<open>
  The four parameters the loader reads, as the object it echoes under \<open>searchParams\<close>;
  the query variables are the same four values with the client's country and language.
  The specification calls \<open>query\<close> the search text and \<open>count\<close> the page size.
\<close>

record search_params =
  query :: js_string
  sortKey :: js_string
  reverse :: bool
  count :: js_number

record query_variables = search_params +
  country :: js_string
  language :: js_string

datatype graphql_document = API_ALL_PRODUCTS_QUERY

datatype cache_strategy = CacheLong

record storefront_call =
  document :: graphql_document
  variables :: query_variables
  cache :: cache_strategy

text \<open>
  What \<open>storefront.query\<close> settles to: a rejection, or the data object of
  \<open>ApiAllProducts\<close> (the client's type for a resolved value), whose \<open>products\<close>
  connection may be \<open>null\<close> or missing (\<open>None\<close>), which differs from a connection
  with no nodes.
\<close>

record 'p connection =
  nodes :: "'p list"

record 'p query_data =
  products :: "'p connection option"

datatype ('e, 'p) settled = Rejected 'e | Resolved "'p query_data"

text \<open>
  The client of the request context: its locale and its \<open>query\<close> method, the external
  data source as a function of the call it receives.
\<close>

record ('e, 'p) storefront =
  i18n_country :: js_string
  i18n_language :: js_string
  storefront_query :: "storefront_call \<Rightarrow> ('e, 'p) settled"

text \<open>
  Hydrogen's \<open>flattenConnection\<close> on a connection that was queried with \<open>nodes\<close>: its
  nodes.
\<close>

definition flattenConnection :: "'p connection \<Rightarrow> 'p list" where
  "flattenConnection c = nodes c"

text \<open>
  The loader fails either with the error of \<open>invariant\<close> (tiny-invariant, called with
  the message below) or with whatever the client's promise was rejected with.
\<close>

datatype 'e loader_error = Invariant_failed string | Query_rejected 'e

record 'p json_body =
  json_products :: "'p list"
  json_searchParams :: search_params

text \<open>A run of the loader: the outbound calls it issued, in order, and how it ended.\<close>

record ('e, 'p) loader_run =
  issued :: "storefront_call list"
  outcome :: "'e loader_error + 'p json_body"

subsection \<open>The loader\<close>

text \<open>
  Lines 19 to 41: the four parameters from the \<open>URLSearchParams\<close> object. \<open>??\<close>
  replaces \<open>null\<close> only. Neither \<open>get\<close> nor \<open>parseInt\<close> throws, so the two \<open>catch\<close>
  blocks never run; \<open>count\<close> keeps its initial 12 only when the key is absent
  (the \<open>typeof\<close> test fails for \<open>null\<close> alone). The locals \<open>_reverse\<close> and
  \<open>_count\<close> are \<open>raw_reverse\<close> and \<open>raw_count\<close> here.
\<close>

definition loader_params :: "url_search_params \<Rightarrow> search_params" where
  "loader_params searchParams =
     \<lparr>query = (case get searchParams (js ''query'') of None \<Rightarrow> [] | Some v \<Rightarrow> v),
      sortKey =
        (case get searchParams (js ''sortKey'') of None \<Rightarrow> js ''BEST_SELLING'' | Some v \<Rightarrow> v),
      reverse =
        (let raw_reverse = get searchParams (js ''reverse'')
         in if raw_reverse = Some (js ''true'') then True else False),
      count =
        (case get searchParams (js ''count'') of None \<Rightarrow> Num 12
         | Some raw_count \<Rightarrow> parseInt raw_count)\<rparr>"

text \<open>Lines 43 to 53: the one call the loader makes.\<close>

definition loader_call :: "search_params \<Rightarrow> ('e, 'p) storefront \<Rightarrow> storefront_call" where
  "loader_call p storefront =
     \<lparr>document = API_ALL_PRODUCTS_QUERY,
      variables =
        \<lparr>query = query p, sortKey = sortKey p, reverse = reverse p, count = count p,
         country = i18n_country storefront, language = i18n_language storefront\<rparr>,
      cache = CacheLong\<rparr>"

text \<open>
  Lines 19 to 65, the loader once the \<open>URLSearchParams\<close> object is built. The call is
  awaited: a rejection ends the run with that error, a resolved value without
  \<open>products\<close> fails the invariant, anything else is answered with \<open>json\<close> of the
  flattened connection and the four parameters.
\<close>

definition loader_body ::
  "url_search_params \<Rightarrow> ('e, 'p) storefront \<Rightarrow> ('e, 'p) loader_run" where
  "loader_body searchParams storefront =
     (let p = loader_params searchParams;
          call = loader_call p storefront;
          awaited = storefront_query storefront call
      in \<lparr>issued = [call],
          outcome =
            (case awaited of
               Rejected e \<Rightarrow> Inl (Query_rejected e)
             | Resolved data \<Rightarrow>
                 (case products data of
                    None \<Rightarrow> Inl (Invariant_failed ''No data returned from top products query'')
                  | Some conn \<Rightarrow>
                      Inr \<lparr>json_products = flattenConnection conn,
                           json_searchParams =
                             \<lparr>query = query p, sortKey = sortKey p, reverse = reverse p,
                              count = count p\<rparr>\<rparr>))\<rparr>)"

text \<open>The loader: lines 16 and 17 build the \<open>URLSearchParams\<close> object of the request.\<close>

definition loader :: "request \<Rightarrow> ('e, 'p) storefront \<Rightarrow> ('e, 'p) loader_run" where
  "loader req storefront =
     (let search = URL_search (url req);
          searchParams = URLSearchParams search
      in loader_body searchParams storefront)"

subsection \<open>Integer strings\<close>

text \<open>
  The notions the statements below need: a valid integer string is an optional sign
  followed by one or more decimal digits, and denotes the integer its digits spell.
\<close>

definition sign_negative :: "js_string \<Rightarrow> bool" where
  "sign_negative s = (case s of [] \<Rightarrow> False | c # _ \<Rightarrow> c = 0x2D)"

definition unsigned_part :: "js_string \<Rightarrow> js_string" where
  "unsigned_part s =
     (case s of [] \<Rightarrow> [] | c # rest \<Rightarrow> if c = 0x2B \<or> c = 0x2D then rest else s)"

definition is_integer_string :: "js_string \<Rightarrow> bool" where
  "is_integer_string s \<longleftrightarrow>
     unsigned_part s \<noteq> [] \<and> list_all is_decimal_digit (unsigned_part s)"

definition integer_of_string :: "js_string \<Rightarrow> int" where
  "integer_of_string s =
     (if sign_negative s then - int (radix_value 10 (unsigned_part s))
      else int (radix_value 10 (unsigned_part s)))"

section \<open>Properties\<close>

subsection \<open>Facts about \<open>parseInt\<close> and Number values\<close>

lemma digit_not_white_space: "is_decimal_digit c \<Longrightarrow> \<not> is_white_space c"
  unfolding is_decimal_digit_def is_white_space_def
  by (auto simp: word_le_nat_alt)

lemma digit_not_sign: "is_decimal_digit c \<Longrightarrow> c \<noteq> 0x2B \<and> c \<noteq> 0x2D"
  unfolding is_decimal_digit_def by auto

lemma digit_not_x: "is_decimal_digit c \<Longrightarrow> c \<noteq> 0x78 \<and> c \<noteq> 0x58"
  unfolding is_decimal_digit_def by auto

lemma takeWhile_digits:
  assumes "list_all is_decimal_digit ds" and "rest = [] \<or> \<not> is_decimal_digit (hd rest)"
  shows "takeWhile is_decimal_digit (ds @ rest) = ds"
proof -
  from assms(1) have "\<forall>x\<in>set ds. is_decimal_digit x" by (simp add: list_all_iff)
  then have "takeWhile is_decimal_digit (ds @ rest) = ds @ takeWhile is_decimal_digit rest"
    by (simp add: takeWhile_append2)
  moreover from assms(2) have "takeWhile is_decimal_digit rest = []"
    by (cases rest) auto
  ultimately show ?thesis by simp
qed

text \<open>
  \<open>parseInt\<close> on an integer string followed by anything that does not go on with a
  digit, unless the digits are a lone \<open>0\<close> and an \<open>x\<close> follows.
\<close>

lemma parseInt_integer_prefix:
  assumes pre: "is_integer_string pre"
    and rest: "rest = [] \<or> \<not> is_decimal_digit (hd rest)"
    and nohex: "\<not> (unsigned_part pre = [0x30] \<and> rest \<noteq> [] \<and> (hd rest = 0x78 \<or> hd rest = 0x58))"
  shows "parseInt (pre @ rest) = number_for (sign_negative pre) (radix_value 10 (unsigned_part pre))"
proof -
  define ds where "ds = unsigned_part pre"
  from pre have ds: "ds \<noteq> []" "list_all is_decimal_digit ds"
    by (simp_all add: is_integer_string_def ds_def)
  then obtain d ds' where d: "ds = d # ds'" by (cases ds) auto
  with ds(2) have dd: "is_decimal_digit d" by simp
  obtain c cs where c: "pre = c # cs"
    using ds(1) by (cases pre) (auto simp: ds_def unsigned_part_def)
  have c_nws: "\<not> is_white_space c"
    using c dd d digit_not_white_space [of c]
    by (auto simp: ds_def unsigned_part_def is_white_space_def split: if_splits)
  have ws: "dropWhile is_white_space (pre @ rest) = pre @ rest"
    using c c_nws by simp
  have S1: "(case pre @ rest of [] \<Rightarrow> pre @ rest
             | c # r \<Rightarrow> if c = 0x2B \<or> c = 0x2D then r else pre @ rest) = ds @ rest"
    using c by (auto simp: ds_def unsigned_part_def)
  have neg: "(case pre @ rest of [] \<Rightarrow> False | c # _ \<Rightarrow> c = 0x2D) = sign_negative pre"
    using c by (simp add: sign_negative_def)
  have hex: "(case ds @ rest of a # b # _ \<Rightarrow> a = 0x30 \<and> (b = 0x78 \<or> b = 0x58) | _ \<Rightarrow> False) = False"
  proof (cases ds')
    case Nil
    with d nohex show ?thesis by (cases rest) (auto simp: ds_def)
  next
    case (Cons e es)
    with d ds(2) have "is_decimal_digit e" by simp
    then have "e \<noteq> 0x78 \<and> e \<noteq> 0x58" by (rule digit_not_x)
    with Cons d show ?thesis by simp
  qed
  have Z: "takeWhile is_decimal_digit (ds @ rest) = ds"
    using ds(2) rest by (rule takeWhile_digits)
  show ?thesis
    unfolding parseInt_def ws Let_def S1 neg hex
    using Z ds(1) by (simp add: ds_def)
qed

lemma bit_length_le: "a < 2 ^ k \<Longrightarrow> bit_length a \<le> k"
proof (induction a arbitrary: k rule: bit_length.induct)
  case (1 n)
  show ?case
  proof (cases "n = 0")
    case True
    then show ?thesis by (simp add: bit_length.simps)
  next
    case False
    with "1.prems" obtain j where k: "k = Suc j" by (cases k) auto
    with "1.prems" have "n div 2 < 2 ^ j" by auto
    with "1.IH" False have "bit_length (n div 2) \<le> j" by blast
    with False k show ?thesis by (simp add: bit_length.simps [of n])
  qed
qed

lemma round_to_double_exact: "a < 2 ^ 53 \<Longrightarrow> round_to_double a = a"
  using bit_length_le [of a 53] by (simp add: round_to_double_def)

lemma number_for_exact:
  assumes "n < 2 ^ 53"
  shows "number_for negative n =
     (if n = 0 then (if negative then NegZero else Num 0)
      else Num (if negative then - int n else int n))"
proof -
  have "(2::nat) ^ 53 < 2 ^ 1024" by simp
  with assms have "\<not> 2 ^ 1024 \<le> n" by linarith
  with assms show ?thesis
    by (simp add: number_for_def round_to_double_exact Let_def)
qed

lemma number_for_integer_of_string:
  assumes "\<bar>integer_of_string s\<bar> < 2 ^ 53"
  shows "number_for (sign_negative s) (radix_value 10 (unsigned_part s)) =
     (if integer_of_string s = 0 then (if sign_negative s then NegZero else Num 0)
      else Num (integer_of_string s))"
proof -
  have "int (radix_value 10 (unsigned_part s)) < 2 ^ 53"
    using assms by (simp add: integer_of_string_def split: if_splits)
  then have "radix_value 10 (unsigned_part s) < 2 ^ 53"
    by (metis of_nat_less_iff of_nat_numeral of_nat_power)
  then show ?thesis
    by (simp add: number_for_exact integer_of_string_def)
qed

subsection \<open>Evaluation rules\<close>

lemmas parseInt_eval =
  parseInt_def js_def is_white_space_def is_decimal_digit_def is_hex_digit_def
  number_for_def radix_value_def digit_value_def round_to_double_def bit_length.simps

lemmas URLSearchParams_eval =
  URLSearchParams_def urlencoded_parse_def urlencoded_pair_def utf8_decode_without_BOM_def
  utf8_initial_def utf16_units_def js_def

subsection \<open>Unfolding the loader\<close>

lemma issued_loader_body:
  "issued (loader_body sp sf) = [loader_call (loader_params sp) sf]"
  by (simp add: loader_body_def Let_def)

lemma outcome_loader_body:
  "outcome (loader_body sp sf) =
     (case storefront_query sf (loader_call (loader_params sp) sf) of
        Rejected e \<Rightarrow> Inl (Query_rejected e)
      | Resolved data \<Rightarrow>
          (case products data of
             None \<Rightarrow> Inl (Invariant_failed ''No data returned from top products query'')
           | Some conn \<Rightarrow>
               Inr \<lparr>json_products = nodes conn, json_searchParams = loader_params sp\<rparr>))"
  by (simp add: loader_body_def Let_def flattenConnection_def split: settled.split option.split)

lemma loader_unfold:
  "loader req sf = loader_body (URLSearchParams (URL_search (url req))) sf"
  by (simp add: loader_def)

lemma URLSearchParams_shoes:
  "URLSearchParams ''?query=shoes&count=8&sortKey=PRICE&reverse=true'' =
     [(js ''query'', js ''shoes''), (js ''count'', js ''8''),
      (js ''sortKey'', js ''PRICE''), (js ''reverse'', js ''true'')]"
  by (simp add: URLSearchParams_eval)

lemma loader_params_shoes:
  "loader_params
     [(js ''query'', js ''shoes''), (js ''count'', js ''8''),
      (js ''sortKey'', js ''PRICE''), (js ''reverse'', js ''true'')] =
     \<lparr>query = js ''shoes'', sortKey = js ''PRICE'', reverse = True, count = Num 8\<rparr>"
  by (simp add: loader_params_def get_def parseInt_eval)

lemma URL_search_shoes:
  "URL_search ''https://shop.example/api/products?query=shoes&count=8&sortKey=PRICE&reverse=true'' =
     ''?query=shoes&count=8&sortKey=PRICE&reverse=true''"
  by (simp add: URL_search_def)

subsection \<open>The parameters\<close>

text \<open>
  C3: when none of the keys \<open>query\<close>, \<open>sortKey\<close>, \<open>reverse\<close> and \<open>count\<close> occurs in
  the raw query, the parameters are the empty search text, \<open>BEST_SELLING\<close>, no reversal
  and a page size of 12.
\<close>

theorem loader_params_defaults:
  assumes "get sp (js ''query'') = None" and "get sp (js ''sortKey'') = None"
    and "get sp (js ''reverse'') = None" and "get sp (js ''count'') = None"
  shows "loader_params sp =
     \<lparr>query = js '''', sortKey = js ''BEST_SELLING'', reverse = False, count = Num 12\<rparr>"
  using assms by (simp add: loader_params_def js_def)

theorem loader_params_defaults_witness:
  "get [(js ''page'', js ''2'')] (js ''query'') = None \<and>
   get [(js ''page'', js ''2'')] (js ''sortKey'') = None \<and>
   get [(js ''page'', js ''2'')] (js ''reverse'') = None \<and>
   get [(js ''page'', js ''2'')] (js ''count'') = None \<and>
   loader_params [(js ''page'', js ''2'')] =
     \<lparr>query = js '''', sortKey = js ''BEST_SELLING'', reverse = False, count = Num 12\<rparr>"
proof -
  have h: "get [(js ''page'', js ''2'')] (js ''query'') = None"
    "get [(js ''page'', js ''2'')] (js ''sortKey'') = None"
    "get [(js ''page'', js ''2'')] (js ''reverse'') = None"
    "get [(js ''page'', js ''2'')] (js ''count'') = None"
    by (simp_all add: get_def js_def)
  from h loader_params_defaults [OF h] show ?thesis by simp
qed

text \<open>
  C4: the reverse flag is set exactly when the raw value of \<open>reverse\<close>, the first one
  if the key is repeated, is the string \<open>true\<close>. The values \<open>1\<close>, \<open>True\<close>, the empty
  string and an absent key all leave it unset, as the instances below show.
\<close>

theorem reverse_iff_true:
  "reverse (loader_params sp) \<longleftrightarrow> get sp (js ''reverse'') = Some (js ''true'')"
  by (simp add: loader_params_def)

theorem reverse_iff_true_witness:
  "reverse (loader_params [(js ''reverse'', js ''true'')]) \<and>
   \<not> reverse (loader_params [(js ''reverse'', js ''1'')]) \<and>
   \<not> reverse (loader_params [(js ''reverse'', js ''True'')]) \<and>
   \<not> reverse (loader_params [(js ''reverse'', js '''')]) \<and>
   \<not> reverse (loader_params [])"
  using reverse_iff_true [of "[(js ''reverse'', js ''true'')]"]
    reverse_iff_true [of "[(js ''reverse'', js ''1'')]"]
    reverse_iff_true [of "[(js ''reverse'', js ''True'')]"]
    reverse_iff_true [of "[(js ''reverse'', js '''')]"]
    reverse_iff_true [of "[]"]
  by (simp add: get_def js_def)

subsection \<open>The page size\<close>

lemmas integer_string_eval =
  is_integer_string_def unsigned_part_def sign_negative_def integer_of_string_def

text \<open>
  C1, as stated, fails: a \<open>count\<close> that is present and not a valid integer string does
  not always give the page size 12. The value \<open>24px\<close> gives 24, since \<open>parseInt\<close>
  reads the longest digit prefix.
\<close>

theorem count_24px_not_default:
  "get [(js ''count'', js ''24px'')] (js ''count'') = Some (js ''24px'') \<and>
   \<not> is_integer_string (js ''24px'') \<and>
   count (loader_params [(js ''count'', js ''24px'')]) = Num 24 \<and>
   count (loader_params [(js ''count'', js ''24px'')]) \<noteq> Num 12"
  by (simp add: loader_params_def get_def integer_string_eval parseInt_eval)

text \<open>
  C1, amended: when the raw value of \<open>count\<close> is a valid integer string, the page size
  is the Number value of the integer it denotes; that is the integer itself when its
  magnitude is below \<open>2 ^ 53\<close>, with \<open>-0\<close> for a zero written with a minus sign.
  Nothing is stated for a value that is not a valid integer string.
\<close>

theorem count_of_integer_string:
  assumes "get sp (js ''count'') = Some s" and "is_integer_string s"
  shows "count (loader_params sp) =
           number_for (sign_negative s) (radix_value 10 (unsigned_part s)) \<and>
         (\<bar>integer_of_string s\<bar> < 2 ^ 53 \<longrightarrow>
            count (loader_params sp) =
              (if integer_of_string s = 0 \<and> sign_negative s then NegZero
               else Num (integer_of_string s)))"
proof -
  have "parseInt (s @ []) =
      number_for (sign_negative s) (radix_value 10 (unsigned_part s))"
    using assms(2) by (rule parseInt_integer_prefix) simp_all
  then have c: "count (loader_params sp) =
      number_for (sign_negative s) (radix_value 10 (unsigned_part s))"
    using assms(1) by (simp add: loader_params_def)
  show ?thesis
    using c number_for_integer_of_string [of s] by auto
qed

theorem count_of_integer_string_witness:
  "get [(js ''count'', js ''24'')] (js ''count'') = Some (js ''24'') \<and>
   is_integer_string (js ''24'') \<and>
   \<bar>integer_of_string (js ''24'')\<bar> < 2 ^ 53 \<and>
   integer_of_string (js ''24'') = 24 \<and>
   count (loader_params [(js ''count'', js ''24'')]) = Num 24"
proof -
  have g: "get [(js ''count'', js ''24'')] (js ''count'') = Some (js ''24'')"
    by (simp add: get_def)
  have i: "is_integer_string (js ''24'')"
    by (simp add: integer_string_eval js_def is_decimal_digit_def)
  have v: "integer_of_string (js ''24'') = 24"
    by (simp add: integer_string_eval js_def radix_value_def digit_value_def)
  from count_of_integer_string [OF g i, THEN conjunct2] v
  have "count (loader_params [(js ''count'', js ''24'')]) = Num 24" by simp
  with g i v show ?thesis by simp
qed

text \<open>
  C9, as stated, fails: \<open>0x1F\<close> begins with the decimal integer \<open>0\<close> followed by a
  character that is no digit, and its page size is 31, not 0, since \<open>parseInt\<close> with no
  radix reads a value after \<open>0x\<close> or \<open>0X\<close> as hexadecimal.
\<close>

theorem count_0x1F_is_hexadecimal:
  "js ''0x1F'' = js ''0'' @ js ''x1F'' \<and>
   is_integer_string (js ''0'') \<and> integer_of_string (js ''0'') = 0 \<and>
   \<not> is_decimal_digit (hd (js ''x1F'')) \<and>
   count (loader_params [(js ''count'', js ''0x1F'')]) = Num 31 \<and>
   count (loader_params [(js ''count'', js ''0x1F'')]) \<noteq> Num 0"
  by (simp add: loader_params_def get_def integer_string_eval parseInt_eval)

text \<open>
  C9, amended: when the raw value of \<open>count\<close> begins with a valid integer string which
  is followed by a character that is no decimal digit, and the digits are not a lone
  \<open>0\<close> followed by \<open>x\<close> or \<open>X\<close>, the page size is the Number value of that integer
  (the integer itself when its magnitude is below \<open>2 ^ 53\<close>), not the default 12.
\<close>

theorem count_of_decimal_prefix:
  assumes "get sp (js ''count'') = Some (pre @ rest)"
    and "is_integer_string pre"
    and "rest \<noteq> []" and "\<not> is_decimal_digit (hd rest)"
    and "\<not> (unsigned_part pre = js ''0'' \<and> (hd rest = 0x78 \<or> hd rest = 0x58))"
  shows "count (loader_params sp) =
           number_for (sign_negative pre) (radix_value 10 (unsigned_part pre)) \<and>
         (\<bar>integer_of_string pre\<bar> < 2 ^ 53 \<longrightarrow>
            count (loader_params sp) =
              (if integer_of_string pre = 0 \<and> sign_negative pre then NegZero
               else Num (integer_of_string pre)))"
proof -
  have "parseInt (pre @ rest) =
      number_for (sign_negative pre) (radix_value 10 (unsigned_part pre))"
    using assms(2) assms(4) assms(5) by (intro parseInt_integer_prefix) (simp_all add: js_def)
  then have c: "count (loader_params sp) =
      number_for (sign_negative pre) (radix_value 10 (unsigned_part pre))"
    using assms(1) by (simp add: loader_params_def)
  show ?thesis
    using c number_for_integer_of_string [of pre] by auto
qed

theorem count_of_decimal_prefix_witness:
  "get [(js ''count'', js ''24'' @ js ''px'')] (js ''count'') = Some (js ''24'' @ js ''px'') \<and>
   is_integer_string (js ''24'') \<and> js ''px'' \<noteq> [] \<and> \<not> is_decimal_digit (hd (js ''px'')) \<and>
   \<not> (unsigned_part (js ''24'') = js ''0'' \<and> (hd (js ''px'') = 0x78 \<or> hd (js ''px'') = 0x58)) \<and>
   \<bar>integer_of_string (js ''24'')\<bar> < 2 ^ 53 \<and>
   count (loader_params [(js ''count'', js ''24px'')]) = Num 24 \<and>
   count (loader_params [(js ''count'', js ''8.9'')]) = Num 8 \<and>
   count (loader_params [(js ''count'', js ''-7 items'')]) = Num (- 7)"
proof -
  have i: "is_integer_string (js ''24'')" "is_integer_string (js ''8'')" "is_integer_string (js ''-7'')"
    by (simp_all add: integer_string_eval js_def is_decimal_digit_def)
  have v: "integer_of_string (js ''24'') = 24" "integer_of_string (js ''8'') = 8"
     "integer_of_string (js ''-7'') = - 7"
    by (simp_all add: integer_string_eval js_def radix_value_def digit_value_def)
  have r: "js ''px'' \<noteq> []" "\<not> is_decimal_digit (hd (js ''px''))"
    "js ''.9'' \<noteq> []" "\<not> is_decimal_digit (hd (js ''.9''))"
    "js '' items'' \<noteq> []" "\<not> is_decimal_digit (hd (js '' items''))"
    by (simp_all add: js_def is_decimal_digit_def)
  have x: "\<not> (unsigned_part (js ''24'') = js ''0'' \<and> (hd (js ''px'') = 0x78 \<or> hd (js ''px'') = 0x58))"
    "\<not> (unsigned_part (js ''8'') = js ''0'' \<and> (hd (js ''.9'') = 0x78 \<or> hd (js ''.9'') = 0x58))"
    "\<not> (unsigned_part (js ''-7'') = js ''0'' \<and> (hd (js '' items'') = 0x78 \<or> hd (js '' items'') = 0x58))"
    by (simp_all add: js_def unsigned_part_def)
  have g: "get [(js ''count'', js ''24px'')] (js ''count'') = Some (js ''24'' @ js ''px'')"
     "get [(js ''count'', js ''8.9'')] (js ''count'') = Some (js ''8'' @ js ''.9'')"
     "get [(js ''count'', js ''-7 items'')] (js ''count'') = Some (js ''-7'' @ js '' items'')"
    by (simp_all add: get_def js_def)
  have e: "js ''24'' @ js ''px'' = js ''24px''" by (simp add: js_def)
  from count_of_decimal_prefix [OF g(1) i(1) r(1) r(2) x(1), THEN conjunct2] v(1)
  have c1: "count (loader_params [(js ''count'', js ''24px'')]) = Num 24" by simp
  from count_of_decimal_prefix [OF g(2) i(2) r(3) r(4) x(2), THEN conjunct2] v(2)
  have c2: "count (loader_params [(js ''count'', js ''8.9'')]) = Num 8" by simp
  from count_of_decimal_prefix [OF g(3) i(3) r(5) r(6) x(3), THEN conjunct2] v(3)
  have c3: "count (loader_params [(js ''count'', js ''-7 items'')]) = Num (- 7)" by simp
  from g(1) have g': "get [(js ''count'', js ''24'' @ js ''px'')] (js ''count'') = Some (js ''24'' @ js ''px'')"
    by (simp add: get_def)
  from v(1) have b: "\<bar>integer_of_string (js ''24'')\<bar> < 2 ^ 53" by simp
  from g' i(1) r(1) r(2) x(1) b c1 c2 c3 show ?thesis by blast
qed

text \<open>
  C6 asks that every parsing failure ends in the default. The loader at \<open>?count=abc\<close>
  and at \<open>?count=\<close>: \<open>parseInt\<close> returns \<open>NaN\<close> instead of throwing, the \<open>catch\<close>
  block that would have kept the 12 is not entered, and \<open>NaN\<close> is what the outbound call
  carries.
\<close>

theorem count_abc_is_NaN:
  "count (loader_params (URLSearchParams ''?count=abc'')) = NaN \<and>
   count (loader_params (URLSearchParams ''?count='')) = NaN \<and>
   map (\<lambda>c. count (variables c))
     (issued (loader \<lparr>url = ''https://shop.example/api/products?count=abc''\<rparr> sf)) = [NaN] \<and>
   NaN \<noteq> Num 12"
proof -
  have u: "URL_search ''https://shop.example/api/products?count=abc'' = ''?count=abc''"
    by (simp add: URL_search_def)
  have s: "URLSearchParams ''?count=abc'' = [(js ''count'', js ''abc'')]"
    "URLSearchParams ''?count='' = [(js ''count'', js [])]"
    by (simp_all add: URLSearchParams_eval)
  have p: "count (loader_params [(js ''count'', js ''abc'')]) = NaN"
    "count (loader_params [(js ''count'', js [])]) = NaN"
    by (simp_all add: loader_params_def get_def parseInt_eval)
  show ?thesis
    by (simp add: u s p loader_unfold issued_loader_body loader_call_def)
qed

subsection \<open>The outbound call and the response\<close>

text \<open>
  C5: when \<open>sortKey\<close> is present in the raw query, the one outbound call carries its
  raw value, the first one if the key is repeated, unchanged; the value is any string,
  no membership in the sort-key enumeration is checked.
\<close>

theorem sortKey_forwarded_unchanged:
  assumes "get sp (js ''sortKey'') = Some v"
  shows "map (\<lambda>c. sortKey (variables c)) (issued (loader_body sp sf)) = [v]"
  using assms by (simp add: issued_loader_body loader_call_def loader_params_def)

theorem sortKey_forwarded_unchanged_witness:
  "get [(js ''sortKey'', js ''FOO'')] (js ''sortKey'') = Some (js ''FOO'') \<and>
   map (\<lambda>c. sortKey (variables c))
     (issued (loader_body [(js ''sortKey'', js ''FOO'')]
        \<lparr>i18n_country = js ''US'', i18n_language = js ''EN'',
         storefront_query = (\<lambda>c. Rejected () :: (unit, string) settled)\<rparr>)) = [js ''FOO'']"
proof -
  have g: "get [(js ''sortKey'', js ''FOO'')] (js ''sortKey'') = Some (js ''FOO'')"
    by (simp add: get_def)
  from g sortKey_forwarded_unchanged [OF g] show ?thesis by blast
qed

text \<open>
  C7: for a request whose query string is
  \<open>?query=shoes&count=8&sortKey=PRICE&reverse=true\<close> the loader issues its call with
  the search text \<open>shoes\<close>, the page size 8, the sort key \<open>PRICE\<close> and the reverse flag
  set, and when that call resolves with a products connection, the response carries
  exactly these four values under \<open>searchParams\<close>.
\<close>

theorem loader_shoes_scenario:
  assumes "URL_search (url req) = ''?query=shoes&count=8&sortKey=PRICE&reverse=true''"
  shows "\<exists>c. c = \<lparr>document = API_ALL_PRODUCTS_QUERY,
             variables =
               \<lparr>query = js ''shoes'', sortKey = js ''PRICE'', reverse = True, count = Num 8,
                country = i18n_country sf, language = i18n_language sf\<rparr>,
             cache = CacheLong\<rparr> \<and>
     issued (loader req sf) = [c] \<and>
     (\<forall>data conn. storefront_query sf c = Resolved data \<and> products data = Some conn \<longrightarrow>
        outcome (loader req sf) =
          Inr \<lparr>json_products = flattenConnection conn,
               json_searchParams =
                 \<lparr>query = js ''shoes'', sortKey = js ''PRICE'', reverse = True,
                  count = Num 8\<rparr>\<rparr>)"
  using assms
  by (simp add: loader_unfold URLSearchParams_shoes issued_loader_body outcome_loader_body
      loader_params_shoes loader_call_def flattenConnection_def)

theorem loader_shoes_scenario_witness:
  "URL_search (url \<lparr>url = ''https://shop.example/api/products?query=shoes&count=8&sortKey=PRICE&reverse=true''\<rparr>) =
     ''?query=shoes&count=8&sortKey=PRICE&reverse=true'' \<and>
   issued (loader \<lparr>url = ''https://shop.example/api/products?query=shoes&count=8&sortKey=PRICE&reverse=true''\<rparr>
     \<lparr>i18n_country = js ''US'', i18n_language = js ''EN'',
      storefront_query = (\<lambda>c. Resolved \<lparr>products = Some \<lparr>nodes = [''boot'', ''clog'']\<rparr>\<rparr>
        :: (unit, string) settled)\<rparr>) =
     [\<lparr>document = API_ALL_PRODUCTS_QUERY,
       variables =
         \<lparr>query = js ''shoes'', sortKey = js ''PRICE'', reverse = True, count = Num 8,
          country = js ''US'', language = js ''EN''\<rparr>,
       cache = CacheLong\<rparr>] \<and>
   outcome (loader \<lparr>url = ''https://shop.example/api/products?query=shoes&count=8&sortKey=PRICE&reverse=true''\<rparr>
     \<lparr>i18n_country = js ''US'', i18n_language = js ''EN'',
      storefront_query = (\<lambda>c. Resolved \<lparr>products = Some \<lparr>nodes = [''boot'', ''clog'']\<rparr>\<rparr>
        :: (unit, string) settled)\<rparr>) =
     Inr \<lparr>json_products = [''boot'', ''clog''],
          json_searchParams =
            \<lparr>query = js ''shoes'', sortKey = js ''PRICE'', reverse = True, count = Num 8\<rparr>\<rparr>"
proof -
  let ?req = "\<lparr>url = ''https://shop.example/api/products?query=shoes&count=8&sortKey=PRICE&reverse=true''\<rparr>"
  let ?sf = "\<lparr>i18n_country = js ''US'', i18n_language = js ''EN'',
      storefront_query = (\<lambda>c. Resolved \<lparr>products = Some \<lparr>nodes = [''boot'', ''clog'']\<rparr>\<rparr>
        :: (unit, string) settled)\<rparr>"
  have h: "URL_search (url ?req) = ''?query=shoes&count=8&sortKey=PRICE&reverse=true''"
    using URL_search_shoes by simp
  from loader_shoes_scenario [OF h, of ?sf] h show ?thesis
    by (simp add: flattenConnection_def)
qed

text \<open>
  C2: when the call the loader issued resolves without a products object, the loader
  fails with the invariant error (the spec's \<open>DataIntegrityError\<close>) and gives no
  listing; a failure of the loader is either this one or the rejection of the call
  passed on; and a connection with no nodes is answered with an empty product list.
\<close>

theorem loader_invariant_failure:
  assumes "issued (loader req sf) = [c]"
  shows "(\<forall>data. storefront_query sf c = Resolved data \<and> products data = None \<longrightarrow>
            outcome (loader req sf) =
              Inl (Invariant_failed ''No data returned from top products query'')) \<and>
         (\<forall>e. outcome (loader req sf) = Inl e \<longrightarrow>
            (e = Invariant_failed ''No data returned from top products query'' \<and>
             (\<exists>data. storefront_query sf c = Resolved data \<and> products data = None)) \<or>
            (\<exists>x. e = Query_rejected x \<and> storefront_query sf c = Rejected x)) \<and>
         (\<forall>data. storefront_query sf c = Resolved data \<and> products data = Some \<lparr>nodes = []\<rparr> \<longrightarrow>
            (\<exists>body. outcome (loader req sf) = Inr body \<and> json_products body = []))"
  using assms
  by (auto simp: loader_unfold issued_loader_body outcome_loader_body
      split: settled.splits option.splits)

theorem loader_invariant_failure_witness:
  "issued (loader \<lparr>url = ''https://shop.example/api/products''\<rparr>
     \<lparr>i18n_country = js ''US'', i18n_language = js ''EN'',
      storefront_query = (\<lambda>c. Resolved \<lparr>products = None\<rparr> :: (unit, string) settled)\<rparr>) =
     [\<lparr>document = API_ALL_PRODUCTS_QUERY,
       variables =
         \<lparr>query = js [], sortKey = js ''BEST_SELLING'', reverse = False, count = Num 12,
          country = js ''US'', language = js ''EN''\<rparr>,
       cache = CacheLong\<rparr>] \<and>
   outcome (loader \<lparr>url = ''https://shop.example/api/products''\<rparr>
     \<lparr>i18n_country = js ''US'', i18n_language = js ''EN'',
      storefront_query = (\<lambda>c. Resolved \<lparr>products = None\<rparr> :: (unit, string) settled)\<rparr>) =
     Inl (Invariant_failed ''No data returned from top products query'') \<and>
   (\<exists>body.
      outcome (loader \<lparr>url = ''https://shop.example/api/products''\<rparr>
        \<lparr>i18n_country = js ''US'', i18n_language = js ''EN'',
         storefront_query =
           (\<lambda>c. Resolved \<lparr>products = Some \<lparr>nodes = []\<rparr>\<rparr> :: (unit, string) settled)\<rparr>) =
        Inr body \<and> json_products body = [])"
proof -
  let ?req = "\<lparr>url = ''https://shop.example/api/products''\<rparr>"
  let ?sf = "\<lparr>i18n_country = js ''US'', i18n_language = js ''EN'',
      storefront_query = (\<lambda>c. Resolved \<lparr>products = None\<rparr> :: (unit, string) settled)\<rparr>"
  let ?sf' = "\<lparr>i18n_country = js ''US'', i18n_language = js ''EN'',
      storefront_query =
        (\<lambda>c. Resolved \<lparr>products = Some \<lparr>nodes = []\<rparr>\<rparr> :: (unit, string) settled)\<rparr>"
  let ?c = "\<lparr>document = API_ALL_PRODUCTS_QUERY,
       variables =
         \<lparr>query = js [], sortKey = js ''BEST_SELLING'', reverse = False, count = Num 12,
          country = js ''US'', language = js ''EN''\<rparr>,
       cache = CacheLong\<rparr>"
  have s: "URLSearchParams (URL_search ''https://shop.example/api/products'') = []"
    by (simp add: URL_search_def URLSearchParams_eval)
  have p: "loader_params [] =
      \<lparr>query = js [], sortKey = js ''BEST_SELLING'', reverse = False, count = Num 12\<rparr>"
    by (simp add: loader_params_def get_def js_def)
  have i: "issued (loader ?req ?sf) = [?c]"
    by (simp add: loader_unfold s issued_loader_body p loader_call_def)
  have i': "issued (loader ?req ?sf') = [?c]"
    by (simp add: loader_unfold s issued_loader_body p loader_call_def)
  have q: "storefront_query ?sf ?c = Resolved \<lparr>products = None\<rparr> \<and>
      products \<lparr>products = None :: string connection option\<rparr> = None"
    by simp
  have q': "storefront_query ?sf' ?c = Resolved \<lparr>products = Some \<lparr>nodes = []\<rparr>\<rparr> \<and>
      products \<lparr>products = Some \<lparr>nodes = [] :: string list\<rparr>\<rparr> = Some \<lparr>nodes = []\<rparr>"
    by simp
  from loader_invariant_failure [OF i, THEN conjunct1] q
  have a: "outcome (loader ?req ?sf) =
      Inl (Invariant_failed ''No data returned from top products query'')"
    by blast
  from loader_invariant_failure [OF i', THEN conjunct2, THEN conjunct2] q'
  have b: "\<exists>body. outcome (loader ?req ?sf') = Inr body \<and> json_products body = []"
    by blast
  from i a b show ?thesis by blast
qed

text \<open>
  C8: every run of the loader issues exactly one outbound call, the \<open>ApiAllProducts\<close>
  query, and a response exists only for a call that has resolved: its products are the
  flattened connection that this call returned.
\<close>

theorem loader_issues_one_call:
  "\<exists>c. issued (loader req sf) = [c] \<and> document c = API_ALL_PRODUCTS_QUERY \<and>
     (\<forall>body. outcome (loader req sf) = Inr body \<longrightarrow>
        (\<exists>data conn. storefront_query sf c = Resolved data \<and> products data = Some conn \<and>
           json_products body = flattenConnection conn))"
  by (auto simp: loader_unfold issued_loader_body outcome_loader_body loader_call_def
      flattenConnection_def split: settled.splits option.splits)

theorem loader_issues_one_call_witness:
  "outcome (loader \<lparr>url = ''https://shop.example/api/products?query=shoes&count=8&sortKey=PRICE&reverse=true''\<rparr>
     \<lparr>i18n_country = js ''US'', i18n_language = js ''EN'',
      storefront_query = (\<lambda>c. Resolved \<lparr>products = Some \<lparr>nodes = [''boot'']\<rparr>\<rparr>
        :: (unit, string) settled)\<rparr>) =
     Inr \<lparr>json_products = [''boot''],
          json_searchParams =
            \<lparr>query = js ''shoes'', sortKey = js ''PRICE'', reverse = True, count = Num 8\<rparr>\<rparr> \<and>
   (\<exists>c. issued (loader \<lparr>url = ''https://shop.example/api/products?query=shoes&count=8&sortKey=PRICE&reverse=true''\<rparr>
     \<lparr>i18n_country = js ''US'', i18n_language = js ''EN'',
      storefront_query = (\<lambda>c. Resolved \<lparr>products = Some \<lparr>nodes = [''boot'']\<rparr>\<rparr>
        :: (unit, string) settled)\<rparr>) = [c] \<and>
      document c = API_ALL_PRODUCTS_QUERY \<and>
      (\<exists>conn. products \<lparr>products = Some \<lparr>nodes = [''boot'']\<rparr>\<rparr> = Some conn \<and>
         [''boot''] = flattenConnection conn))"
proof -
  let ?req = "\<lparr>url = ''https://shop.example/api/products?query=shoes&count=8&sortKey=PRICE&reverse=true''\<rparr>"
  let ?sf = "\<lparr>i18n_country = js ''US'', i18n_language = js ''EN'',
      storefront_query = (\<lambda>c. Resolved \<lparr>products = Some \<lparr>nodes = [''boot'']\<rparr>\<rparr>
        :: (unit, string) settled)\<rparr>"
  let ?body = "\<lparr>json_products = [''boot''],
          json_searchParams =
            \<lparr>query = js ''shoes'', sortKey = js ''PRICE'', reverse = True, count = Num 8\<rparr>\<rparr>"
  have o: "outcome (loader ?req ?sf) = Inr ?body"
    by (simp add: loader_unfold URL_search_shoes URLSearchParams_shoes outcome_loader_body
        loader_params_shoes)
  from loader_issues_one_call [of ?req ?sf] obtain c where
    c: "issued (loader ?req ?sf) = [c]" "document c = API_ALL_PRODUCTS_QUERY"
      "\<forall>body. outcome (loader ?req ?sf) = Inr body \<longrightarrow>
        (\<exists>data conn. storefront_query ?sf c = Resolved data \<and> products data = Some conn \<and>
           json_products body = flattenConnection conn)"
    by blast
  from c(3) o obtain data conn where
    d: "storefront_query ?sf c = Resolved data" "products data = Some conn"
      "json_products ?body = flattenConnection conn"
    by blast
  from d(1) have "data = \<lparr>products = Some \<lparr>nodes = [''boot'']\<rparr>\<rparr>" by simp
  with d have "products \<lparr>products = Some \<lparr>nodes = [''boot'']\<rparr>\<rparr> = Some conn \<and>
         [''boot''] = flattenConnection conn" by simp
  with o c(1) c(2) show ?thesis by blast
qed

text \<open>
  C10: in every successful run, for every raw query, the four values under
  \<open>searchParams\<close> in the response are the four values of the same names in the
  variables of the call that was issued.
\<close>

theorem searchParams_echo_variables:
  assumes "outcome (loader_body sp sf) = Inr body"
  shows "\<exists>c. issued (loader_body sp sf) = [c] \<and>
     query (json_searchParams body) = query (variables c) \<and>
     sortKey (json_searchParams body) = sortKey (variables c) \<and>
     reverse (json_searchParams body) = reverse (variables c) \<and>
     count (json_searchParams body) = count (variables c)"
  using assms
  by (auto simp: issued_loader_body outcome_loader_body loader_call_def
      split: settled.splits option.splits)

theorem searchParams_echo_variables_witness:
  "outcome (loader_body [(js ''count'', js ''abc''), (js ''sortKey'', js ''FOO'')]
     \<lparr>i18n_country = js ''US'', i18n_language = js ''EN'',
      storefront_query = (\<lambda>c. Resolved \<lparr>products = Some \<lparr>nodes = [''boot'']\<rparr>\<rparr>
        :: (unit, string) settled)\<rparr>) =
     Inr \<lparr>json_products = [''boot''],
          json_searchParams =
            \<lparr>query = js [], sortKey = js ''FOO'', reverse = False, count = NaN\<rparr>\<rparr> \<and>
   (\<exists>c. issued (loader_body [(js ''count'', js ''abc''), (js ''sortKey'', js ''FOO'')]
     \<lparr>i18n_country = js ''US'', i18n_language = js ''EN'',
      storefront_query = (\<lambda>c. Resolved \<lparr>products = Some \<lparr>nodes = [''boot'']\<rparr>\<rparr>
        :: (unit, string) settled)\<rparr>) = [c] \<and>
      query (variables c) = js [] \<and> sortKey (variables c) = js ''FOO'' \<and>
      reverse (variables c) = False \<and> count (variables c) = NaN)"
proof -
  let ?sp = "[(js ''count'', js ''abc''), (js ''sortKey'', js ''FOO'')]"
  let ?sf = "\<lparr>i18n_country = js ''US'', i18n_language = js ''EN'',
      storefront_query = (\<lambda>c. Resolved \<lparr>products = Some \<lparr>nodes = [''boot'']\<rparr>\<rparr>
        :: (unit, string) settled)\<rparr>"
  let ?body = "\<lparr>json_products = [''boot''],
          json_searchParams =
            \<lparr>query = js [], sortKey = js ''FOO'', reverse = False, count = NaN\<rparr>\<rparr>"
  have p: "loader_params ?sp = \<lparr>query = js [], sortKey = js ''FOO'', reverse = False, count = NaN\<rparr>"
    by (simp add: loader_params_def get_def parseInt_eval)
  have o: "outcome (loader_body ?sp ?sf) = Inr ?body"
    by (simp add: outcome_loader_body p)
  from searchParams_echo_variables [OF o] o show ?thesis by auto
qed

end
